theory Spec2Isabelle
  imports Main "HOL-Library.Word" "HOL-Library.AList"
begin

section \<open>Bytes, slices and the parts of Go's standard library the code calls\<close>

text \<open>
  A Go \<open>[]byte\<close> and a Go \<open>string\<close> are sequences of bytes: \<open>char list\<close>. A slice
  expression \<open>s[lo:hi]\<close> shares the storage of \<open>s\<close>; where the code writes through such a
  slice (\<open>unescape\<close> in \<open>ghc.go\<close> does), the model keeps the storage as a list of fixed
  length and the slice as its bounds, and returns the storage as the call leaves it.
\<close>

type_synonym bytes = "char list"

definition byte :: "char \<Rightarrow> nat" where
  "byte c = of_char c"

definition slice :: "bytes \<Rightarrow> nat \<Rightarrow> nat \<Rightarrow> bytes" where
  \<comment> \<open>the bytes of \<open>s[lo:hi]\<close>\<close>
  "slice s lo hi = take (hi - lo) (drop lo s)"

definition store :: "bytes \<Rightarrow> nat \<Rightarrow> bytes \<Rightarrow> bytes" where
  \<comment> \<open>the storage \<open>s\<close> with the region starting at \<open>lo\<close> replaced by \<open>r\<close>\<close>
  "store s lo r = take lo s @ r @ drop (lo + length r) s"

subsection \<open>unicode/utf8 and unicode.IsSpace\<close>

definition RuneError :: nat where
  "RuneError = 0xFFFD"

definition DecodeRune :: "bytes \<Rightarrow> nat \<times> nat" where
  \<comment> \<open>\<open>utf8.DecodeRune\<close>: the rune and its width; the \<open>first\<close> and \<open>acceptRanges\<close>
      tables are written as comparisons, the masks as \<open>mod\<close>\<close>
  "DecodeRune p =
     (case p of
        [] \<Rightarrow> (RuneError, 0)
      | c0 # _ \<Rightarrow>
          let p0 = byte c0 in
          if p0 < 0x80 then (p0, 1)
          else if p0 < 0xC2 \<or> 0xF5 \<le> p0 then (RuneError, 1)
          else
            let sz = (if p0 < 0xE0 then 2 else if p0 < 0xF0 then 3 else 4 :: nat);
                lo = (if p0 = 0xE0 then 0xA0 else if p0 = 0xF0 then 0x90 else 0x80);
                hi = (if p0 = 0xED then 0x9F else if p0 = 0xF4 then 0x8F else 0xBF)
            in
            if length p < sz then (RuneError, 1)
            else
              let b1 = byte (p ! 1) in
              if b1 < lo \<or> hi < b1 then (RuneError, 1)
              else if sz \<le> 2 then ((p0 mod 32) * 64 + b1 mod 64, 2)
              else
                let b2 = byte (p ! 2) in
                if b2 < 0x80 \<or> 0xBF < b2 then (RuneError, 1)
                else if sz \<le> 3 then ((p0 mod 16) * 4096 + (b1 mod 64) * 64 + b2 mod 64, 3)
                else
                  let b3 = byte (p ! 3) in
                  if b3 < 0x80 \<or> 0xBF < b3 then (RuneError, 1)
                  else ((p0 mod 8) * 262144 + (b1 mod 64) * 4096 + (b2 mod 64) * 64
                          + b3 mod 64, 4))"

definition RuneStart :: "char \<Rightarrow> bool" where
  \<comment> \<open>\<open>b&0xC0 != 0x80\<close>\<close>
  "RuneStart b = (\<not> (0x80 \<le> byte b \<and> byte b < 0xC0))"

function runeStartBack :: "bytes \<Rightarrow> int \<Rightarrow> int \<Rightarrow> int" where
  \<comment> \<open>the loop \<open>for start--; start >= lim; start--\<close> of \<open>utf8.DecodeLastRune\<close>,
      entered after the first decrement\<close>
  "runeStartBack p start lim =
     (if start \<ge> lim \<and> start \<ge> 0 then
        (if RuneStart (p ! nat start) then start else runeStartBack p (start - 1) lim)
      else start)"
  by pat_completeness auto
termination
  by (relation "measure (\<lambda>(p, start, lim). nat (start + 1))") auto

declare runeStartBack.simps [simp del]

definition DecodeLastRune :: "bytes \<Rightarrow> nat \<times> nat" where
  "DecodeLastRune p =
     (let end = length p in
      if end = 0 then (RuneError, 0)
      else
        let r = byte (p ! (end - 1)) in
        if r < 0x80 then (r, 1)
        else
          let lim = (if int end - 4 < 0 then 0 else int end - 4);
              start0 = runeStartBack p (int end - 2) lim;
              start = (if start0 < 0 then 0 else nat start0);
              (r', size) = DecodeRune (slice p start end)
          in if start + size \<noteq> end then (RuneError, 1) else (r', size))"

definition IsSpace :: "nat \<Rightarrow> bool" where
  \<comment> \<open>\<open>unicode.IsSpace\<close>: the Latin-1 switch, then the \<open>White_Space\<close> range table\<close>
  "IsSpace r =
     (if r \<le> 0xFF then
        r = 0x09 \<or> r = 0x0A \<or> r = 0x0B \<or> r = 0x0C \<or> r = 0x0D \<or> r = 0x20
        \<or> r = 0x85 \<or> r = 0xA0
      else
        r = 0x1680 \<or> (0x2000 \<le> r \<and> r \<le> 0x200A) \<or> r = 0x2028 \<or> r = 0x2029
        \<or> r = 0x202F \<or> r = 0x205F \<or> r = 0x3000)"

subsection \<open>bytes.TrimFunc\<close>

function indexFunc :: "bytes \<Rightarrow> (nat \<Rightarrow> bool) \<Rightarrow> bool \<Rightarrow> nat \<Rightarrow> nat option" where
  \<comment> \<open>\<open>bytes.indexFunc\<close>, the loop from \<open>start\<close>; \<open>None\<close> is Go's \<open>-1\<close>. The
      width of a rune decoded from a non-empty slice is at least 1; the step says so\<close>
  "indexFunc s f truth start =
     (if start < length s then
        (let (r, wid) = (if byte (s ! start) \<ge> 0x80 then DecodeRune (drop start s)
                         else (byte (s ! start), 1))
         in if f r = truth then Some start
            else indexFunc s f truth (start + (if wid = 0 then 1 else wid)))
      else None)"
  by pat_completeness auto
termination
  by (relation "measure (\<lambda>(s, f, truth, start). length s - start)") auto

declare indexFunc.simps [simp del]

function lastIndexFunc :: "bytes \<Rightarrow> (nat \<Rightarrow> bool) \<Rightarrow> bool \<Rightarrow> nat \<Rightarrow> nat option" where
  \<comment> \<open>\<open>bytes.lastIndexFunc\<close>, the loop from \<open>i\<close> down; the size is at least 1, as in
      \<open>indexFunc\<close>\<close>
  "lastIndexFunc s f truth i =
     (if i > 0 then
        (let (r, size) = (if byte (s ! (i - 1)) \<ge> 0x80 then DecodeLastRune (take i s)
                          else (byte (s ! (i - 1)), 1));
             i' = i - (if size = 0 then 1 else size)
         in if f r = truth then Some i' else lastIndexFunc s f truth i')
      else None)"
  by pat_completeness auto
termination
  by (relation "measure (\<lambda>(s, f, truth, i). i)") auto

declare lastIndexFunc.simps [simp del]

definition TrimLeftFunc :: "bytes \<Rightarrow> (nat \<Rightarrow> bool) \<Rightarrow> nat \<times> nat" where
  \<comment> \<open>the bounds of the slice \<open>bytes.TrimLeftFunc\<close> returns (\<open>nil\<close> is an empty slice)\<close>
  "TrimLeftFunc s f =
     (case indexFunc s f False 0 of
        None \<Rightarrow> (length s, length s)
      | Some i \<Rightarrow> (i, length s))"

definition TrimRightFunc :: "bytes \<Rightarrow> (nat \<Rightarrow> bool) \<Rightarrow> nat \<times> nat" where
  "TrimRightFunc s f =
     (case lastIndexFunc s f False (length s) of
        None \<Rightarrow> (0, 0)
      | Some i \<Rightarrow>
          if byte (s ! i) \<ge> 0x80 then (0, i + snd (DecodeRune (drop i s)))
          else (0, i + 1))"

definition TrimFunc :: "bytes \<Rightarrow> (nat \<Rightarrow> bool) \<Rightarrow> nat \<times> nat" where
  \<comment> \<open>\<open>TrimRightFunc(TrimLeftFunc(s, f), f)\<close>, as bounds within \<open>s\<close>\<close>
  "TrimFunc s f =
     (let (lo, hi) = TrimLeftFunc s f;
          (lo', hi') = TrimRightFunc (slice s lo hi) f
      in (lo + lo', lo + hi'))"

section \<open>internal/ghc: the workflow-command parser\<close>

subsection \<open>TrimLeftSpace\<close>

definition asciiSpace :: "char \<Rightarrow> nat" where
  \<comment> \<open>the table \<open>asciiSpace\<close>: 1 at tab, LF, VT, FF, CR and space\<close>
  "asciiSpace c =
     (if byte c = 0x09 \<or> byte c = 0x0A \<or> byte c = 0x0B \<or> byte c = 0x0C
         \<or> byte c = 0x0D \<or> byte c = 0x20 then 1 else 0)"

function TrimLeftSpace_loop :: "bytes \<Rightarrow> nat \<Rightarrow> nat \<times> nat" where
  \<comment> \<open>the bounds of the returned slice within \<open>s\<close>\<close>
  "TrimLeftSpace_loop s start =
     (if start < length s then
        (let c = s ! start in
         if byte c \<ge> 0x80 then
           (let (lo, hi) = TrimFunc (drop start s) IsSpace in (start + lo, start + hi))
         else if asciiSpace c = 0 then (start, length s)
         else TrimLeftSpace_loop s (start + 1))
      else (start, length s))"
  by pat_completeness auto
termination
  by (relation "measure (\<lambda>(s, start). length s - start)") auto

declare TrimLeftSpace_loop.simps [simp del]

definition TrimLeftSpace :: "bytes \<Rightarrow> bytes" where
  "TrimLeftSpace s = (let (lo, hi) = TrimLeftSpace_loop s 0 in slice s lo hi)"

subsection \<open>Percent-unescaping, in place\<close>

definition unescape :: "bytes \<Rightarrow> nat \<Rightarrow> nat \<Rightarrow> char \<Rightarrow> bytes" where
  \<comment> \<open>\<open>s = append(s[:i+1], s[i+3:]...); s[i] = c\<close> on the storage \<open>a\<close> of a slice of
      length \<open>n\<close>: the bytes after the escape move two places down, the last two places of
      the old slice keep their bytes, and the slice is then \<open>n - 2\<close> long\<close>
  "unescape a n i c = take i a @ [c] @ slice a (i + 3) n @ drop (n - 2) a"

definition dataEscape :: "char \<Rightarrow> char \<Rightarrow> char option" where
  \<comment> \<open>the nested \<open>switch\<close> of \<open>unescapeData\<close> on \<open>s[i+1]\<close> and \<open>s[i+2]\<close>\<close>
  "dataEscape c1 c2 =
     (if c1 = CHR ''0'' then
        (if c2 = CHR ''A'' \<or> c2 = CHR ''a'' then Some (CHR 0x0A)
         else if c2 = CHR ''D'' \<or> c2 = CHR ''d'' then Some (CHR 0x0D)
         else None)
      else if c1 = CHR ''2'' then
        (if c2 = CHR ''5'' then Some (CHR ''%'') else None)
      else None)"

definition propertyEscape :: "char \<Rightarrow> char \<Rightarrow> char option" where
  \<comment> \<open>the nested \<open>switch\<close> of \<open>unescapeProperty\<close>\<close>
  "propertyEscape c1 c2 =
     (if c1 = CHR ''0'' then
        (if c2 = CHR ''A'' \<or> c2 = CHR ''a'' then Some (CHR 0x0A)
         else if c2 = CHR ''D'' \<or> c2 = CHR ''d'' then Some (CHR 0x0D)
         else None)
      else if c1 = CHR ''2'' then
        (if c2 = CHR ''5'' then Some (CHR ''%'')
         else if c2 = CHR ''C'' \<or> c2 = CHR ''c'' then Some (CHR '','')
         else None)
      else if c1 = CHR ''3'' then
        (if c2 = CHR ''A'' \<or> c2 = CHR ''a'' then Some (CHR '':'') else None)
      else None)"

function unescape_loop ::
  "(char \<Rightarrow> char \<Rightarrow> char option) \<Rightarrow> bytes \<Rightarrow> nat \<Rightarrow> nat \<Rightarrow> bytes \<times> nat" where
  \<comment> \<open>\<open>for i := 0; i < len(s); i++\<close> of \<open>unescapeData\<close> and \<open>unescapeProperty\<close>, which
      differ in the \<open>switch\<close> only: \<open>a\<close> is the storage of \<open>s\<close>, \<open>n\<close> is \<open>len(s)\<close>;
      \<open>i < len(s)-2\<close> is \<open>i + 2 < n\<close>\<close>
  "unescape_loop esc a n i =
     (if i < n then
        (if a ! i = CHR ''%'' \<and> i + 2 < n then
           (case esc (a ! (i + 1)) (a ! (i + 2)) of
              Some c \<Rightarrow> unescape_loop esc (unescape a n i c) (n - 2) (i + 1)
            | None \<Rightarrow> unescape_loop esc a n (i + 1))
         else unescape_loop esc a n (i + 1))
      else (a, n))"
  by pat_completeness auto
termination
  by (relation "measure (\<lambda>(esc, a, n, i). n - i)") auto

declare unescape_loop.simps [simp del]

definition unescapeData :: "bytes \<Rightarrow> bytes \<times> nat" where
  \<comment> \<open>the storage of the argument after the call, and the length of the returned slice,
      which starts where the argument starts (\<open>[]byte{}\<close> for an empty argument)\<close>
  "unescapeData s = (if length s = 0 then (s, 0) else unescape_loop dataEscape s (length s) 0)"

definition unescapeProperty :: "bytes \<Rightarrow> bytes \<times> nat option" where
  \<comment> \<open>as \<open>unescapeData\<close>; \<open>None\<close> is the \<open>nil\<close> returned for an empty argument\<close>
  "unescapeProperty s =
     (if length s = 0 then (s, None)
      else (let (a, n) = unescape_loop propertyEscape s (length s) 0 in (a, Some n)))"

subsection \<open>Option coercion\<close>

datatype error = ErrSyntax | errIgnore | ErrNoParam | ErrOutOfRange | ErrJSON

datatype any = VString string | VInt int

datatype json = JInvalid | JNull | JInt int

definition jsonSpace :: "char \<Rightarrow> bool" where
  "jsonSpace c = (c = CHR '' '' \<or> c = CHR 0x09 \<or> c = CHR 0x0D \<or> c = CHR 0x0A)"

definition isDigit :: "char \<Rightarrow> bool" where
  "isDigit c = (0x30 \<le> byte c \<and> byte c \<le> 0x39)"

definition decimal :: "bytes \<Rightarrow> int" where
  "decimal ds = foldl (\<lambda>v c. 10 * v + (int (byte c) - 0x30)) 0 ds"

definition json_Unmarshal_int64 :: "bytes \<Rightarrow> json" where
  \<comment> \<open>\<open>json.Unmarshal(s, &num)\<close> with \<open>num\<close> an \<open>int64\<close>: white space around one JSON
      value; \<open>null\<close> leaves \<open>num\<close> as it is and is no error; an integer literal within
      the range of \<open>int64\<close> is stored; every other input (no JSON, a value of another type,
      a number with a fraction or an exponent, a number out of range) is an error\<close>
  "json_Unmarshal_int64 s =
     (let t = rev (dropWhile jsonSpace (rev (dropWhile jsonSpace s)));
          (neg, ds) = (case t of c # r \<Rightarrow> if c = CHR ''-'' then (True, r) else (False, t)
                       | [] \<Rightarrow> (False, []))
      in if t = ''null'' then JNull
         else if ds = [] \<or> \<not> list_all isDigit ds \<or> (hd ds = CHR ''0'' \<and> length ds > 1)
           then JInvalid
         else
           let v = (if neg then - decimal ds else decimal ds) in
           if v < - (2 ^ 63) \<or> 2 ^ 63 - 1 < v then JInvalid else JInt v)"

definition stringOption :: "bytes option \<Rightarrow> error + any" where
  "stringOption s = (case s of None \<Rightarrow> Inl ErrNoParam | Some b \<Rightarrow> Inr (VString b))"

definition naturalNumOption :: "bytes option \<Rightarrow> error + any" where
  "naturalNumOption s =
     (case s of
        None \<Rightarrow> Inl ErrNoParam
      | Some b \<Rightarrow>
          (case json_Unmarshal_int64 b of
             JInvalid \<Rightarrow> Inl ErrJSON
           | JNull \<Rightarrow> Inl ErrOutOfRange
           | JInt num \<Rightarrow> if num < 1 then Inl ErrOutOfRange else Inr (VInt num)))"

datatype optdef =
    String
  | NaturalNum
  | StringWithDefault string
  | NaturalNumWithDefault int

fun into :: "optdef \<Rightarrow> bytes option \<Rightarrow> error + any" where
  \<comment> \<open>the closures that \<open>String\<close>, \<open>NaturalNum\<close>, \<open>StringWithDefault\<close> and
      \<open>NaturalNumWithDefault\<close> store in \<open>defs\<close>\<close>
  "into String s = (if s = None then Inl errIgnore else stringOption s)"
| "into NaturalNum s = (if s = None then Inl errIgnore else naturalNumOption s)"
| "into (StringWithDefault v) s = (if s = None then Inr (VString v) else stringOption s)"
| "into (NaturalNumWithDefault v) s = (if s = None then Inr (VInt v) else naturalNumOption s)"

record GHCOptions =
  data :: "string \<rightharpoonup> bytes"
  defs :: "(string \<times> optdef) list"

definition setDef :: "string \<Rightarrow> optdef \<Rightarrow> GHCOptions \<Rightarrow> GHCOptions" where
  \<comment> \<open>\<open>o.defs[p] = ...\<close>\<close>
  "setDef p d opts = opts\<lparr>defs := AList.update p d (defs opts)\<rparr>"

fun Map_loop ::
  "(string \<rightharpoonup> bytes) \<Rightarrow> (string \<times> optdef) list \<Rightarrow> (string \<rightharpoonup> any) \<Rightarrow> error + (string \<rightharpoonup> any)"
  where
  \<comment> \<open>\<open>for p, into := range o.defs\<close>; Go fixes no order for the entries of a map, the
      model takes them in the order of their definition, which decides only which error
      is returned when several properties are malformed\<close>
  "Map_loop dat [] out = Inr out"
| "Map_loop dat ((p, d) # ds) out =
     (case into d (dat p) of
        Inl err \<Rightarrow> if err \<noteq> errIgnore then Inl err else Map_loop dat ds out
      | Inr v \<Rightarrow> Map_loop dat ds (out(p \<mapsto> v)))"

definition Map :: "GHCOptions \<Rightarrow> error + (string \<rightharpoonup> any)" where
  "Map opts = Map_loop (data opts) (defs opts) Map.empty"

subsection \<open>PraseGHC\<close>

record GHC =
  Name :: string
  Data :: bytes
  Opts :: "GHCOptions option"

definition OmitData :: "GHC \<Rightarrow> GHC" where
  "OmitData g = g\<lparr>Data := []\<rparr>"

definition OmitOpts :: "GHC \<Rightarrow> GHC" where
  "OmitOpts g = g\<lparr>Opts := None\<rparr>"

definition NameOnly :: "GHC \<Rightarrow> GHC" where
  "NameOnly g = OmitOpts (OmitData g)"

text \<open>
  While \<open>PraseGHC\<close> runs, \<open>opt\<close> maps a key to a slice of the line (\<open>prop\<close> shares the
  storage of \<open>s\<close>), here its start and length. A later \<open>unescapeData\<close> can move bytes
  under such a slice, so the values are read from the storage when the parser returns;
  nothing writes to the line between that point and \<open>Map\<close>.
\<close>

type_synonym props = "string \<rightharpoonup> nat \<times> nat"

definition setProp :: "bytes \<Rightarrow> props \<Rightarrow> string \<Rightarrow> nat \<Rightarrow> nat \<Rightarrow> bytes \<times> props" where
  \<comment> \<open>\<open>if prop := unescapeProperty(s[k:j]); prop != nil { opt[key] = prop }\<close>\<close>
  "setProp a opt key k j =
     (let (r, m) = unescapeProperty (slice a k j)
      in (store a k r, case m of None \<Rightarrow> opt | Some l \<Rightarrow> opt(key \<mapsto> (k, l))))"

definition mkGHC :: "string \<Rightarrow> bytes \<Rightarrow> props \<Rightarrow> nat \<Rightarrow> nat \<Rightarrow> GHC" where
  \<comment> \<open>the value returned after \<open>break a\<close>, for the final storage \<open>a\<close>\<close>
  "mkGHC name a opt d l =
     \<lparr>Name = name, Data = slice a d (d + l),
      Opts = Some \<lparr>data = (\<lambda>p. map_option (\<lambda>(k, m). slice a k (k + m)) (opt p)),
                   defs = []\<rparr>\<rparr>"

datatype props_result =
    PropsError bytes
  | PropsBreak bytes props nat nat
  | PropsEnd bytes props

function props_loop ::
  "bytes \<Rightarrow> nat \<Rightarrow> props \<Rightarrow> nat \<Rightarrow> nat \<Rightarrow> bool \<Rightarrow> string \<Rightarrow> props_result" where
  \<comment> \<open>the inner loop \<open>for j, k, val, key := i+1, i+1, false, ""; j < len(s); j++\<close> on the
      storage \<open>a\<close> of \<open>s\<close>, with \<open>n = len(s)\<close>: a syntax error, \<open>break a\<close> with the
      bounds of the data, or the end of the line\<close>
  "props_loop a n opt j k val key =
     (if j < n then
        (if a ! j = CHR ''='' then
           (if val then PropsError a
            else props_loop a n opt (j + 1) (j + 1) True (slice a k j))
         else if a ! j = CHR '','' then
           (if \<not> val then PropsError a
            else (let (a', opt') = setProp a opt key k j
                  in props_loop a' n opt' (j + 1) (j + 1) False []))
         else if a ! j = CHR '':'' then
           (if j = n - 1 \<or> a ! (j + 1) \<noteq> CHR '':'' then PropsError a
            else (let (a', opt') = (if val then setProp a opt key k j else (a, opt));
                      (r, l) = unescapeData (slice a' (j + 2) n)
                  in PropsBreak (store a' (j + 2) r) opt' (j + 2) l))
         else props_loop a n opt (j + 1) k val key)
      else PropsEnd a opt)"
  by pat_completeness auto
termination
  by (relation "measure (\<lambda>(a, n, opt, j, k, val, key). n - j)") auto

declare props_loop.simps [simp del]

function name_loop :: "bytes \<Rightarrow> nat \<Rightarrow> props \<Rightarrow> nat \<Rightarrow> (error + GHC) \<times> bytes" where
  \<comment> \<open>the loop \<open>a: for i := 2; i < len(s); i++\<close>; the result comes with the storage of
      \<open>s\<close> as the parser leaves it\<close>
  "name_loop a n opt i =
     (if i < n then
        (if a ! i = CHR '':'' then
           (if i = n - 1 \<or> a ! (i + 1) \<noteq> CHR '':'' then (Inl ErrSyntax, a)
            else (let (r, l) = unescapeData (slice a (i + 2) n);
                      a' = store a (i + 2) r
                  in (Inr (mkGHC (slice a 2 i) a' opt (i + 2) l), a')))
         else if a ! i = CHR '' '' then
           (case props_loop a n opt (i + 1) (i + 1) False [] of
              PropsError a' \<Rightarrow> (Inl ErrSyntax, a')
            | PropsBreak a' opt' d l \<Rightarrow> (Inr (mkGHC (slice a 2 i) a' opt' d l), a')
            | PropsEnd a' opt' \<Rightarrow> name_loop a' n opt' (i + 1))
         else name_loop a n opt (i + 1))
      else (Inl ErrSyntax, a))"
  by pat_completeness auto
termination
  by (relation "measure (\<lambda>(a, n, opt, i). n - i)") auto

declare name_loop.simps [simp del]

definition PraseGHC :: "bytes \<Rightarrow> (error + GHC) \<times> bytes" where
  \<comment> \<open>the result, and the storage of the argument after the call\<close>
  "PraseGHC s0 =
     (let (lo, hi) = TrimLeftSpace_loop s0 0;
          s = slice s0 lo hi
      in if length s \<le> 4 \<or> s ! 0 \<noteq> CHR '':'' \<or> s ! 1 \<noteq> CHR '':'' then (Inl ErrSyntax, s0)
         else (let (r, a) = name_loop s (length s) Map.empty 2 in (r, store s0 lo a)))"

section \<open>main.go: events, masking and the stream reader\<close>

subsection \<open>bytes.ReplaceAll\<close>

function insertAtRunes :: "bytes \<Rightarrow> bytes \<Rightarrow> bytes" where
  \<comment> \<open>\<open>bytes.ReplaceAll\<close> for an empty \<open>old\<close>: \<open>new\<close> goes before every UTF-8 sequence
      and after the last one (no reader registers an empty token)\<close>
  "insertAtRunes s new =
     (if s = [] then new
      else (let w = (if snd (DecodeRune s) = 0 then 1 else snd (DecodeRune s))
            in new @ take w s @ insertAtRunes (drop w s) new))"
  by pat_completeness auto
termination
  by (relation "measure (\<lambda>(s, new). length s)") (auto simp: Let_def)

declare insertAtRunes.simps [simp del]

function replaceFrom :: "bytes \<Rightarrow> bytes \<Rightarrow> bytes \<Rightarrow> bytes" where
  \<comment> \<open>\<open>bytes.ReplaceAll\<close> for a non-empty \<open>old\<close>: the occurrences of \<open>old\<close> that do
      not overlap, leftmost first, each replaced by \<open>new\<close>\<close>
  "replaceFrom s old new =
     (if s = [] \<or> old = [] then s
      else if take (length old) s = old then new @ replaceFrom (drop (length old) s) old new
      else hd s # replaceFrom (tl s) old new)"
  by pat_completeness auto
termination
  by (relation "measure (\<lambda>(s, old, new). length s)") auto

declare replaceFrom.simps [simp del]

definition ReplaceAll :: "bytes \<Rightarrow> bytes \<Rightarrow> bytes \<Rightarrow> bytes" where
  "ReplaceAll s old new = (if old = [] then insertAtRunes s new else replaceFrom s old new)"

subsection \<open>mask\<close>

definition masking :: bytes where
  "masking = ''***''"

definition mask :: "bytes \<Rightarrow> bytes list \<Rightarrow> bytes" where
  \<comment> \<open>\<open>for _, m := range masks { s = bytes.ReplaceAll(s, m, masking) }\<close>\<close>
  "mask s masks = foldl (\<lambda>s m. ReplaceAll s m masking) s masks"

subsection \<open>line, newLine, newCommand\<close>

text \<open>
  \<open>time.Now()\<close> is an input of the model: the clock reading, in nanoseconds, comes with
  every scanned line. A \<open>nil\<close> map and an empty map are both \<open>Map.empty\<close> (the encoder
  omits either). The fields \<open>size\<close>, \<open>text\<close>, \<open>data\<close> and \<open>opts\<close> carry the suffix \<open>_l\<close>.
\<close>

record line =
  kind :: int
  time :: nat
  size_l :: int
  text_l :: string
  data_l :: string
  opts_l :: "string \<rightharpoonup> any"

definition newLine :: "bool \<Rightarrow> int \<Rightarrow> string \<Rightarrow> nat \<Rightarrow> line" where
  "newLine fd1 sz t now =
     \<lparr>kind = (if \<not> fd1 then 2 else 1), time = now, size_l = sz, text_l = t, data_l = [],
      opts_l = Map.empty\<rparr>"

definition newCommand :: "int \<Rightarrow> GHC \<Rightarrow> nat \<Rightarrow> error + line" where
  "newCommand sz c now =
     (case (case Opts c of None \<Rightarrow> Inr Map.empty | Some opts \<Rightarrow> Map opts) of
        Inl err \<Rightarrow> Inl err
      | Inr m \<Rightarrow>
          Inr \<lparr>kind = - 1, time = now, size_l = sz, text_l = Name c, data_l = Data c,
               opts_l = m\<rparr>)"

subsection \<open>streamReader\<close>

text \<open>
  One reader task holds \<open>masks\<close>, \<open>enable\<close> and \<open>endtoken\<close> as local variables. The
  model runs the body of \<open>for scanner.Scan()\<close> once per scanned line and returns the
  event sent on the channel, if any. Every scanned line is taken as a byte sequence of its
  own: a registered token is a slice of the scanner's buffer (\<open>append(masks, c.Data)\<close>),
  and what the scanner later writes into that part of its buffer is not modelled.
\<close>

record reader =
  masks :: "bytes list"
  enable :: bool
  endtoken :: string

definition reader0 :: reader where
  "reader0 = \<lparr>masks = [], enable = True, endtoken = []\<rparr>"

definition sendPlain :: "bool \<Rightarrow> reader \<Rightarrow> bytes \<Rightarrow> nat \<Rightarrow> reader \<times> line option" where
  \<comment> \<open>\<open>s = mask(s, masks); l <- newLine(fd1, len(s), string(s))\<close>\<close>
  "sendPlain fd1 st s now =
     (let s' = mask s (masks st) in (st, Some (newLine fd1 (int (length s')) s' now)))"

definition sendCommand ::
  "bool \<Rightarrow> reader \<Rightarrow> bytes \<Rightarrow> bytes \<Rightarrow> GHC \<Rightarrow> nat \<Rightarrow> reader \<times> line option" where
  \<comment> \<open>\<open>cc, err := newCommand(len(s), c); if err != nil { break }; l <- cc; continue\<close>,
      where \<open>break\<close> leaves the \<open>switch\<close> for the two statements after it; \<open>s\<close> is the
      line as scanned and \<open>s1\<close> its storage after the parser\<close>
  "sendCommand fd1 st s s1 c now =
     (case newCommand (int (length s)) c now of
        Inl err \<Rightarrow> sendPlain fd1 st s1 now
      | Inr cc \<Rightarrow> (st, Some cc))"

definition annotation :: "GHCOptions \<Rightarrow> GHCOptions" where
  \<comment> \<open>the six declarations of the case \<open>"notice", "warning", "error"\<close>\<close>
  "annotation opts =
     setDef ''endLine'' (NaturalNumWithDefault 1)
       (setDef ''line'' (NaturalNumWithDefault 1)
         (setDef ''endColumn'' NaturalNum
           (setDef ''col'' NaturalNum
             (setDef ''file'' (StringWithDefault ''.github'')
               (setDef ''title'' String opts)))))"

definition streamReader_line ::
  "bool \<Rightarrow> reader \<Rightarrow> bytes \<Rightarrow> nat \<Rightarrow> reader \<times> line option" where
  "streamReader_line fd1 st s now =
     (if fd1 \<and> enable st then
        (case PraseGHC s of
           (Inl err, s1) \<Rightarrow> sendPlain fd1 st s1 now
         | (Inr c, s1) \<Rightarrow>
             if Name c = ''debug'' then
               (let c = OmitOpts c; c = c\<lparr>Data := mask (Data c) (masks st)\<rparr>
                in sendCommand fd1 st s s1 c now)
             else if Name c = ''notice'' \<or> Name c = ''warning'' \<or> Name c = ''error'' then
               (let c = c\<lparr>Data := mask (Data c) (masks st)\<rparr>;
                    c = c\<lparr>Opts := map_option annotation (Opts c)\<rparr>
                in sendCommand fd1 st s s1 c now)
             else if Name c = ''group'' then
               (let c = c\<lparr>Data := mask (Data c) (masks st)\<rparr>; c = OmitOpts c
                in sendCommand fd1 st s s1 c now)
             else if Name c = ''endgroup'' then
               sendCommand fd1 st s s1 (NameOnly c) now
             else if Name c = ''add-mask'' then
               (if length (Data c) > 0 \<and> length (TrimLeftSpace (Data c)) > 0
                then (st\<lparr>masks := masks st @ [Data c]\<rparr>, None)
                else sendPlain fd1 st s1 now)
             else if Name c = ''stop-commands'' then
               (if \<not> enable st
                then (st\<lparr>enable := False, endtoken := Data c\<rparr>, None)
                else sendPlain fd1 st s1 now)
             else
               (if \<not> enable st \<and> Name c = endtoken st
                then (st\<lparr>enable := True, endtoken := []\<rparr>, None)
                else sendPlain fd1 st s1 now))
      else sendPlain fd1 st s now)"

fun streamReader_loop :: "bool \<Rightarrow> reader \<Rightarrow> (bytes \<times> nat) list \<Rightarrow> reader \<times> line list" where
  \<comment> \<open>\<open>for scanner.Scan()\<close> over the scanned lines: the final state and the events sent,
      in order\<close>
  "streamReader_loop fd1 st [] = (st, [])"
| "streamReader_loop fd1 st ((s, now) # rest) =
     (let (st', ev) = streamReader_line fd1 st s now;
          (st'', evs) = streamReader_loop fd1 st' rest
      in (st'', (case ev of None \<Rightarrow> [] | Some l \<Rightarrow> [l]) @ evs))"

definition streamReader :: "bool \<Rightarrow> (bytes \<times> nat) list \<Rightarrow> line list" where
  "streamReader fd1 ls = snd (streamReader_loop fd1 reader0 ls)"

subsection \<open>The tokens a reader has registered\<close>

text \<open>
  Stated from the specification: a token is added only when the data of an \<open>add-mask\<close>
  command is non-empty after trimming. \<open>registered ls\<close> lists, in order, the tokens so
  added by the scanned lines \<open>ls\<close>.
\<close>

definition registered_line :: "bytes \<Rightarrow> bytes list" where
  "registered_line s =
     (case fst (PraseGHC s) of
        Inl err \<Rightarrow> []
      | Inr c \<Rightarrow>
          if Name c = ''add-mask'' \<and> Data c \<noteq> [] \<and> TrimLeftSpace (Data c) \<noteq> []
          then [Data c] else [])"

definition registered :: "(bytes \<times> nat) list \<Rightarrow> bytes list" where
  "registered ls = concat (map (\<lambda>(s, now). registered_line s) ls)"

subsection \<open>Percent-unescaping as the specification words it\<close>




subsection \<open>Invariants of the parser's loops\<close>



section \<open>main.go: the stream splitter\<close>

function splitFunc_loop :: "bytes \<Rightarrow> nat \<Rightarrow> (nat \<times> bytes) option" where
  \<comment> \<open>\<open>for i := 0; i < len(data); i++\<close>: the \<open>advance\<close> and the token of the first
      \<open>return\<close> inside the loop, \<open>None\<close> when the loop ends\<close>
  "splitFunc_loop dat i =
     (if i < length dat then
        (if dat ! i = CHR 0x0A then
           (if i > 0 \<and> dat ! (i - 1) = CHR 0x0D then Some (i + 1, take (i - 1) dat)
            else Some (i + 1, take i dat))
         else if dat ! i = CHR 0x0D then
           (if i = length dat - 1 \<or> dat ! (i + 1) \<noteq> CHR 0x0A then Some (i + 1, take i dat)
            else splitFunc_loop dat (i + 1))
         else splitFunc_loop dat (i + 1))
      else None)"
  by pat_completeness auto
termination
  by (relation "measure (\<lambda>(dat, i). length dat - i)") auto

declare splitFunc_loop.simps [simp del]

definition splitFunc :: "bytes \<Rightarrow> bool \<Rightarrow> nat \<times> bytes option" where
  \<comment> \<open>\<open>advance\<close> and token; \<open>None\<close> is the \<open>nil\<close> token, the error is always \<open>nil\<close>\<close>
  "splitFunc dat atEOF =
     (if atEOF \<and> length dat = 0 then (0, None)
      else
        (case splitFunc_loop dat 0 of
           Some (advance, token) \<Rightarrow> (advance, Some token)
         | None \<Rightarrow> if atEOF then (length dat, Some dat) else (0, None)))"




section \<open>main.go: the batching sender\<close>

text \<open>
  \<open>sdb.Datetime\<close> turns the capture time into the pair of \<open>t.Unix()\<close> and
  \<open>t.Nanosecond()\<close>. The sender keeps the wire form of the events, which has no size, and
  the running total \<open>bufSize\<close>, a \<open>uint64\<close>. The call \<open>s.db.Query\<close> is the
  environment: each operation that may flush is given whether the query succeeds, and a
  flush returns the batch it submitted. Holding \<open>mu\<close> makes \<open>write\<close> (here \<open>write_l\<close>)
  and the timer's \<open>flush\<close> atomic, so a run of the sender is a sequence of these
  operations; the last \<open>flush\<close> of \<open>runCmd\<close>, which does not take the lock, is taken
  as one of them.
\<close>

record cborLine =
  Kind :: int
  Time :: "nat \<times> nat"
  Text :: string
  Data_c :: string
  Opts_c :: "string \<rightharpoonup> any"

definition Datetime :: "nat \<Rightarrow> nat \<times> nat" where
  "Datetime t = (t div 1000000000, t mod 1000000000)"

definition toCborLine :: "line \<Rightarrow> cborLine" where
  "toCborLine l =
     \<lparr>Kind = kind l, Time = Datetime (time l), Text = text_l l, Data_c = data_l l,
      Opts_c = opts_l l\<rparr>"

record options =
  cd :: nat
  mbs :: "64 word"

record sender =
  buf :: "cborLine list"
  bufSize :: "64 word"
  timer :: "nat option"
  opt :: options

definition newSender :: "options \<Rightarrow> sender" where
  "newSender opts = \<lparr>buf = [], bufSize = 0, timer = None, opt = opts\<rparr>"

definition flush :: "sender \<Rightarrow> bool \<Rightarrow> sender \<times> (cborLine list \<times> bool) option" where
  \<comment> \<open>\<open>ok\<close>: the query returns no error; the result is the batch handed to the query
      and \<open>ok\<close> (which of the two log lines is written)\<close>
  "flush s ok =
     (if length (buf s) = 0 then (s, None)
      else (s\<lparr>buf := [], bufSize := 0, timer := None\<rparr>, Some (buf s, ok)))"

definition write_l :: "sender \<Rightarrow> line option \<Rightarrow> bool \<Rightarrow> sender \<times> (cborLine list \<times> bool) option"
  where
  \<comment> \<open>\<open>None\<close> is a \<open>nil\<close> line; \<open>uint64(l.size)\<close> of an \<open>int\<close> is \<open>of_int\<close>\<close>
  "write_l s l ok =
     (case l of
        None \<Rightarrow> (s, None)
      | Some l \<Rightarrow>
          (let s = s\<lparr>buf := buf s @ [toCborLine l], bufSize := bufSize s + of_int (size_l l)\<rparr>;
               s = s\<lparr>timer := Some (cd (opt s))\<rparr>
           in if bufSize s \<ge> mbs (opt s) then flush s ok else (s, None)))"

datatype sender_op = Write "line option" bool | Flush bool

text \<open>
  A run of the sender, together with the lines whose wire form the buffer holds (the
  sender itself does not keep them): a line joins them when \<open>write_l\<close> appends it, and they
  are dropped when a flush submits the buffer.
\<close>

fun sender_step :: "sender \<times> line list \<Rightarrow> sender_op \<Rightarrow> sender \<times> line list" where
  "sender_step (s, held) (Write l ok) =
     (case write_l s l ok of
        (s', Some batch) \<Rightarrow> (s', [])
      | (s', None) \<Rightarrow> (s', held @ (case l of None \<Rightarrow> [] | Some l \<Rightarrow> [l])))"
| "sender_step (s, held) (Flush ok) =
     (case flush s ok of
        (s', Some batch) \<Rightarrow> (s', [])
      | (s', None) \<Rightarrow> (s', held))"

definition sender_run :: "options \<Rightarrow> sender_op list \<Rightarrow> sender \<times> line list" where
  "sender_run opts ops = foldl sender_step (newSender opts, []) ops"

definition sender_inv :: "sender \<times> line list \<Rightarrow> bool" where
  "sender_inv sh = (buf (fst sh) = map toCborLine (snd sh) \<and>
                    bufSize (fst sh) = of_int (sum_list (map size_l (snd sh))))"

section \<open>internal/sdb: calls and their correlation table\<close>

text \<open>
  The fields of the client that \<open>rpc\<close> and \<open>listen\<close> use. \<open>id\<close> is the \<open>*serial\<close>
  (\<open>nil\<close> before the first \<open>Connect\<close>) with its counter, a 64-bit \<open>int\<close>;
  \<open>respChans\<close> is the table (\<open>nil\<close> after \<open>Close\<close>), from request ids to channels; a
  channel is the number \<open>make\<close> gave it. What the connection and the clock do is an
  input: the error of \<open>s.write\<close>, and which case of the \<open>select\<close> in \<open>rpc\<close> fires.
  Calls run concurrently, so \<open>rpc\<close> is given in two steps, before and after the point
  where it blocks, and the table may change in between. The fields \<open>id\<close>, \<open>Id\<close>,
  \<open>Error\<close> and \<open>Result\<close> carry the suffix \<open>_r\<close>.
\<close>

record rpcError =
  Code :: int
  Message :: string

record rpcResponse =
  Id_r :: int
  Error_r :: "rpcError option"
  Result_r :: "bytes option"

datatype chanstate = NilChan | OpenChan | ClosedChan

record SDB =
  id_r :: "64 word option"
  CloseErr :: "string option"
  CloseChan :: chanstate
  respChans :: "(int \<rightharpoonup> nat) option"
  made :: nat

datatype 'a go = Panic | Return 'a

function Itoa_nat :: "nat \<Rightarrow> string" where
  "Itoa_nat n =
     (if n < 10 then [''0123456789'' ! n]
      else Itoa_nat (n div 10) @ [''0123456789'' ! (n mod 10)])"
  by pat_completeness auto
termination
  by (relation "measure id") auto

declare Itoa_nat.simps [simp del]

definition Itoa :: "int \<Rightarrow> string" where
  \<comment> \<open>\<open>strconv.Itoa\<close>\<close>
  "Itoa i = (if i < 0 then CHR ''-'' # Itoa_nat (nat (- i)) else Itoa_nat (nat i))"

definition serial_next :: "64 word \<Rightarrow> 64 word \<times> int" where
  \<comment> \<open>\<open>serial.next\<close>: the new counter and the id returned\<close>
  "serial_next cntr =
     (let c = cntr + 1; c = (if sint c < 0 then 1 else c) in (c, sint c))"

definition setChan :: "SDB \<Rightarrow> int \<Rightarrow> (string + nat) go \<times> SDB" where
  \<comment> \<open>an error, or the channel registered; storing into a \<open>nil\<close> map panics\<close>
  "setChan s i =
     (case respChans s of
        None \<Rightarrow> (Panic, s\<lparr>made := made s + 1\<rparr>)
      | Some m \<Rightarrow>
          if m i \<noteq> None then (Return (Inl (''rpc request id '' @ Itoa i @ '' is in use'')), s)
          else (Return (Inr (made s)),
                s\<lparr>respChans := Some (m(i \<mapsto> made s)), made := made s + 1\<rparr>))"

definition getChan :: "SDB \<Rightarrow> int \<Rightarrow> nat option" where
  "getChan s i = (case respChans s of None \<Rightarrow> None | Some m \<Rightarrow> m i)"

definition delChan :: "SDB \<Rightarrow> int \<Rightarrow> SDB" where
  "delChan s i = s\<lparr>respChans := map_option (\<lambda>m. m(i := None)) (respChans s)\<rparr>"

type_synonym rpc_result = "bytes option \<times> string option"

definition rpc_register :: "SDB \<Rightarrow> (rpc_result + int \<times> nat) go \<times> SDB" where
  \<comment> \<open>\<open>rpc\<close> up to \<open>defer s.delChan(id)\<close>: an early return, or the id and its channel\<close>
  "rpc_register s =
     (if CloseChan s = ClosedChan then (Return (Inl (None, CloseErr s)), s)
      else
        (case id_r s of
           None \<Rightarrow> (Panic, s)
         | Some cntr \<Rightarrow>
             (let (c, i) = serial_next cntr;
                  s = s\<lparr>id_r := Some c\<rparr>
              in case setChan s i of
                   (Panic, s) \<Rightarrow> (Panic, s)
                 | (Return (Inl err), s) \<Rightarrow> (Return (Inl (None, Some err)), s)
                 | (Return (Inr ch), s) \<Rightarrow> (Return (Inr (i, ch)), s))))"

datatype wait = Timeout | Received rpcResponse | Closed

definition rpc_wait :: "SDB \<Rightarrow> int \<Rightarrow> string \<Rightarrow> string option \<Rightarrow> wait \<Rightarrow> rpc_result \<times> SDB" where
  \<comment> \<open>\<open>rpc\<close> from \<open>s.write(req)\<close> on, for the id registered: \<open>werr\<close> is the error of the
      write, \<open>w\<close> the case of the \<open>select\<close>; the deferred \<open>delChan\<close> runs on every path\<close>
  "rpc_wait s i method werr w =
     (let r =
        (case werr of
           Some err \<Rightarrow> (None, Some err)
         | None \<Rightarrow>
             (case w of
                Timeout \<Rightarrow>
                  (None, Some ([CHR 0x27] @ method @ [CHR 0x27] @ '' rpc timed out after 5 secconds''))
              | Closed \<Rightarrow>
                  (None, Some ([CHR 0x27] @ method @ [CHR 0x27] @ '' rpc channel('' @ Itoa i
                                 @ '') is closed''))
              | Received resp \<Rightarrow>
                  (case Error_r resp of
                     Some e \<Rightarrow>
                       (None, Some ([CHR 0x27] @ method @ [CHR 0x27] @ '' rpc ('' @ Itoa i
                                      @ '') is failed ('' @ Itoa (Code e) @ ''): '' @ Message e))
                   | None \<Rightarrow> (Result_r resp, None))))
      in (r, delChan s i))"

definition rpc :: "SDB \<Rightarrow> string \<Rightarrow> string option \<Rightarrow> wait \<Rightarrow> rpc_result go \<times> SDB" where
  \<comment> \<open>the two steps with nothing in between\<close>
  "rpc s method werr w =
     (case rpc_register s of
        (Panic, s) \<Rightarrow> (Panic, s)
      | (Return (Inl r), s) \<Rightarrow> (Return r, s)
      | (Return (Inr (i, ch)), s) \<Rightarrow>
          (let (r, s) = rpc_wait s i method werr w in (Return r, s)))"

datatype frame = ReadError string | Undecodable | Response rpcResponse

datatype listened = Stopped | Delivered nat | Dropped

definition listen_step :: "SDB \<Rightarrow> frame \<Rightarrow> listened \<times> SDB" where
  \<comment> \<open>one turn of the loop of \<open>listen\<close>, \<open>fr\<close> being what \<open>ReadMessage\<close> and the decoder
      give: the task ends, or hands the response to a channel, or goes on without\<close>
  "listen_step s fr =
     (if CloseChan s = ClosedChan then (Stopped, s)
      else
        (case fr of
           ReadError err \<Rightarrow> (Stopped, s\<lparr>CloseErr := Some err\<rparr>)
         | Undecodable \<Rightarrow> (Dropped, s)
         | Response resp \<Rightarrow>
             (case getChan s (Id_r resp) of
                Some ch \<Rightarrow> (Delivered ch, s)
              | None \<Rightarrow> (Dropped, s))))"

definition connected :: SDB where
  \<comment> \<open>the fields as \<open>Connect\<close> leaves them on a fresh client\<close>
  "connected =
     \<lparr>id_r = Some 0, CloseErr = None, CloseChan = OpenChan, respChans = Some Map.empty,
      made = 0\<rparr>"

section \<open>Properties of the parser\<close>

lemmas parser_eval =
  PraseGHC_def TrimLeftSpace_def TrimLeftSpace_loop.simps asciiSpace_def byte_def slice_def
  store_def name_loop.simps props_loop.simps setProp_def unescapeProperty_def
  unescapeData_def unescape_loop.simps unescape_def dataEscape_def propertyEscape_def
  mkGHC_def Let_def

lemmas reader_eval =
  streamReader_line_def sendCommand_def sendPlain_def newCommand_def newLine_def mask_def
  masking_def ReplaceAll_def replaceFrom.simps annotation_def setDef_def Map_def
  stringOption_def naturalNumOption_def json_Unmarshal_int64_def jsonSpace_def isDigit_def
  decimal_def OmitOpts_def OmitData_def NameOnly_def

lemma PraseGHC_short:
  assumes "length (TrimLeftSpace s) \<le> 4"
  shows "PraseGHC s = (Inl ErrSyntax, s)"
  using assms by (simp add: PraseGHC_def TrimLeftSpace_def split: prod.splits)

text \<open>
  C10. A line whose trimmed form has at most 4 bytes is rejected with \<open>ErrSyntax\<close>, its
  bytes untouched, and the reader sends it as a plain line; so it is with \<open>::::\<close>.
\<close>

theorem short_line_rejected:
  "length (TrimLeftSpace s) \<le> 4 \<Longrightarrow>
     PraseGHC s = (Inl ErrSyntax, s) \<and>
     streamReader_line fd1 st s now = sendPlain fd1 st s now"
  by (simp add: PraseGHC_short streamReader_line_def)

theorem short_line_rejected_witness:
  "length (TrimLeftSpace ''::::'') \<le> 4 \<and>
   PraseGHC ''::::'' = (Inl ErrSyntax, ''::::'') \<and>
   streamReader_line True reader0 ''::::'' 7 = (reader0, Some (newLine True 4 ''::::'' 7))"
proof -
  have h: "length (TrimLeftSpace ''::::'') \<le> 4"
    by (simp add: parser_eval)
  have m: "sendPlain True reader0 ''::::'' 7 = (reader0, Some (newLine True 4 ''::::'' 7))"
    by (simp add: sendPlain_def reader0_def mask_def)
  from short_line_rejected [OF h, of True reader0 7] h m show ?thesis
    by simp
qed

text \<open>
  C5. The line \<open>::error file=foo.yml,line=10::Wrong\<close>, read on the primary stream by a
  reader in its initial state (gate enabled, no masks), sends one command event: kind
  \<open>-1\<close>, name \<open>error\<close>, data \<open>Wrong\<close>, and a property map whose entries are exactly
  \<open>file = "foo.yml"\<close>, \<open>line = 10\<close> and the default \<open>endLine = 1\<close>.
\<close>

theorem error_annotation_event:
  "streamReader_line True reader0 ''::error file=foo.yml,line=10::Wrong'' now =
     (reader0,
      Some \<lparr>kind = - 1, time = now, size_l = 35, text_l = ''error'', data_l = ''Wrong'',
            opts_l = [''file'' \<mapsto> VString ''foo.yml'', ''line'' \<mapsto> VInt 10,
                      ''endLine'' \<mapsto> VInt 1]\<rparr>) \<and>
   dom [''file'' \<mapsto> VString ''foo.yml'', ''line'' \<mapsto> VInt 10, ''endLine'' \<mapsto> VInt 1]
     = {''file'', ''line'', ''endLine''} \<and>
   {''col'', ''endColumn'', ''title''} \<inter> {''file'', ''line'', ''endLine''} = {}"
  by (simp add: parser_eval reader_eval reader0_def) auto

lemma PraseGHC_not_command:
  assumes "TrimLeftSpace s = t"
    and "length t \<le> 4 \<or> t ! 0 \<noteq> CHR '':'' \<or> t ! 1 \<noteq> CHR '':''"
  shows "PraseGHC s = (Inl ErrSyntax, s)"
  using assms by (auto simp: PraseGHC_def TrimLeftSpace_def Let_def split: prod.splits)

subsection \<open>Trimming\<close>

text \<open>
  On the path that meets no byte of \<open>0x80\<close> or more, \<open>TrimLeftSpace\<close> removes the
  leading ASCII white space and nothing else.
\<close>

lemma TrimLeftSpace_loop_ascii:
  "\<forall>c\<in>set s. byte c < 0x80 \<Longrightarrow> start \<le> length s \<Longrightarrow>
     TrimLeftSpace_loop s start =
       (length s - length (dropWhile (\<lambda>c. asciiSpace c \<noteq> 0) (drop start s)), length s)"
proof (induction s start rule: TrimLeftSpace_loop.induct)
  case (1 s start)
  note loop = TrimLeftSpace_loop.simps [of s start]
  show ?case
  proof (cases "start < length s")
    case False
    then show ?thesis
      using "1.prems" by (subst loop) simp
  next
    case True
    then have d: "drop start s = s ! start # drop (Suc start) s"
      by (simp add: Cons_nth_drop_Suc)
    have a: "\<not> 0x80 \<le> byte (s ! start)"
      using True "1.prems"(1) by (auto simp: not_le)
    show ?thesis
    proof (cases "asciiSpace (s ! start) = 0")
      case z: True
      then show ?thesis
        using True a by (subst loop) (simp add: d)
    next
      case nz: False
      have "TrimLeftSpace_loop s start = TrimLeftSpace_loop s (start + 1)"
        using True a nz by (subst loop) simp
      also have "\<dots> = (length s - length (dropWhile (\<lambda>c. asciiSpace c \<noteq> 0) (drop (start + 1) s)), length s)"
        using "1.IH" [OF True refl a nz "1.prems"(1)] True by simp
      finally show ?thesis
        using nz by (simp add: d)
    qed
  qed
qed

lemma TrimLeftSpace_ascii:
  assumes "\<forall>c\<in>set s. byte c < 0x80"
  shows "TrimLeftSpace s = dropWhile (\<lambda>c. asciiSpace c \<noteq> 0) s"
proof -
  let ?d = "dropWhile (\<lambda>c. asciiSpace c \<noteq> 0) s"
  have le: "length ?d \<le> length s"
    by (rule length_dropWhile_le)
  moreover have "s = takeWhile (\<lambda>c. asciiSpace c \<noteq> 0) s @ ?d"
    by simp
  ultimately have "drop (length s - length ?d) s = ?d"
    by (metis append_eq_conv_conj diff_add_inverse2 length_append)
  then show ?thesis
    using assms le by (simp add: TrimLeftSpace_def TrimLeftSpace_loop_ascii slice_def)
qed

lemmas utf8_eval =
  TrimFunc_def TrimLeftFunc_def TrimRightFunc_def indexFunc.simps lastIndexFunc.simps
  DecodeRune_def DecodeLastRune_def runeStartBack.simps RuneStart_def RuneError_def IsSpace_def

text \<open>
  C9. \<open>TrimLeftSpace\<close> is to remove leading white space only. It does on the path that
  sees ASCII bytes only before the first byte that is no space; once the scan meets a byte
  of \<open>0x80\<close> or more it hands the rest to \<open>bytes.TrimFunc\<close>, which trims both ends. After
  a leading U+3000 the trailing space of \<open>::debug::hi \<close> is lost, after a leading ASCII
  space it is kept; for the bytes \<open>C3 A9 20\<close> the result \<open>C3 A9\<close> is no suffix of the line.
\<close>

theorem TrimLeftSpace_trims_right:
  "TrimLeftSpace ([CHR 0xE3, CHR 0x80, CHR 0x80] @ ''::debug::hi '') = ''::debug::hi'' \<and>
   TrimLeftSpace '' ::debug::hi '' = ''::debug::hi '' \<and>
   TrimLeftSpace [CHR 0xC3, CHR 0xA9, CHR '' ''] = [CHR 0xC3, CHR 0xA9] \<and>
   \<not> (\<exists>pre. pre @ TrimLeftSpace [CHR 0xC3, CHR 0xA9, CHR '' ''] = [CHR 0xC3, CHR 0xA9, CHR '' ''])"
  by (simp add: parser_eval utf8_eval)

subsection \<open>Unescaping\<close>































section \<open>Properties of the stream reader\<close>

lemma sendCommand_state: "fst (sendCommand fd1 st s s1 c now) = st"
  by (simp add: sendCommand_def sendPlain_def Let_def split: sum.splits)

lemma sendPlain_state: "fst (sendPlain fd1 st s now) = st"
  by (simp add: sendPlain_def Let_def)

lemma line_state:
  assumes "enable st"
  shows "fst (streamReader_line True st s now) = st\<lparr>masks := masks st @ registered_line s\<rparr>"
  using assms
  by (auto simp: streamReader_line_def registered_line_def sendCommand_state sendPlain_state
      Let_def split: prod.splits sum.splits)

lemma loop_Cons_fst:
  "fst (streamReader_loop fd1 st ((s, now) # ls)) =
     fst (streamReader_loop fd1 (fst (streamReader_line fd1 st s now)) ls)"
  by (simp split: prod.splits)

lemma loop_state:
  "enable st \<Longrightarrow>
     fst (streamReader_loop True st ls) = st\<lparr>masks := masks st @ registered ls\<rparr>"
proof (induction ls arbitrary: st)
  case Nil
  then show ?case by (simp add: registered_def)
next
  case (Cons a ls)
  obtain s now where a: "a = (s, now)" by (cases a)
  let ?st' = "st\<lparr>masks := masks st @ registered_line s\<rparr>"
  have 1: "fst (streamReader_line True st s now) = ?st'"
    using Cons.prems by (rule line_state)
  have 2: "enable ?st'"
    using Cons.prems by simp
  have "fst (streamReader_loop True st (a # ls)) = fst (streamReader_loop True ?st' ls)"
    unfolding a loop_Cons_fst 1 ..
  also have "\<dots> = ?st'\<lparr>masks := masks ?st' @ registered ls\<rparr>"
    using 2 by (rule Cons.IH)
  finally show ?case by (simp add: registered_def a)
qed

text \<open>
  The gate of a reader never closes: the test \<open>if !enable\<close> of the case
  \<open>"stop-commands"\<close> sits inside \<open>if fd1 && enable\<close>.
\<close>

lemma gate_stays_enabled: "enable (fst (streamReader_loop True reader0 ls))"
  by (simp add: loop_state reader0_def)



text \<open>
  C1. The primary stream carries \<open>::stop-commands::TOKEN\<close>, \<open>::add-mask::x\<close>,
  \<open>::TOKEN\<close>, \<open>::add-mask::y\<close> and then two plain lines. As stated, \<open>x\<close> is left
  alone and only \<open>y\<close> is masked. The reader sends the \<open>stop-commands\<close> line as plain text and
  stays enabled, registers both tokens, and masks \<open>x\<close> and \<open>y\<close> in the plain lines.
\<close>

theorem stop_commands_does_not_stop:
  "streamReader True
     [(''::stop-commands::TOKEN'', t1), (''::add-mask::x'', t2), (''::TOKEN'', t3),
      (''::add-mask::y'', t4), (''secret x'', t5), (''secret y'', t6)] =
   [newLine True 22 ''::stop-commands::TOKEN'' t1, newLine True 7 ''::TOKEN'' t3,
    newLine True 10 ''secret ***'' t5, newLine True 10 ''secret ***'' t6]"
  by (simp add: streamReader_def reader0_def parser_eval reader_eval utf8_eval)

text \<open>
  C8 as stated: an \<open>add-mask\<close> line with blank data sends no event. The line
  \<open>::add-mask::\<close> followed by two spaces parses as \<open>add-mask\<close> with data that trims to
  nothing, and the reader sends it as a plain line.
\<close>

theorem blank_add_mask_counterexample:
  "\<not> isl (fst (PraseGHC ''::add-mask::  '')) \<and>
   Name (projr (fst (PraseGHC ''::add-mask::  ''))) = ''add-mask'' \<and>
   TrimLeftSpace (Data (projr (fst (PraseGHC ''::add-mask::  '')))) = [] \<and>
   streamReader_line True reader0 ''::add-mask::  '' 0 =
     (reader0, Some (newLine True 14 ''::add-mask::  '' 0))"
  by (simp add: reader0_def parser_eval reader_eval utf8_eval)

text \<open>
  C8, amended. For a primary-stream line that parses, with the gate enabled, as an
  \<open>add-mask\<close> command whose data is empty after trimming, the reader registers no token
  (its state stays as it is) and sends the line as one plain event: the bytes of the line
  as the parser leaves them, masked with the tokens registered before.
\<close>

theorem blank_add_mask_sent_as_plain:
  assumes "enable st"
    and "fst (PraseGHC s) = Inr c"
    and "Name c = ''add-mask''"
    and "TrimLeftSpace (Data c) = []"
  shows "streamReader_line True st s now =
           (st, Some (newLine True (int (length (mask (snd (PraseGHC s)) (masks st))))
                        (mask (snd (PraseGHC s)) (masks st)) now))"
  using assms
  by (cases "PraseGHC s") (simp add: streamReader_line_def sendPlain_def Let_def)

theorem blank_add_mask_sent_as_plain_witness:
  "enable reader0 \<and>
   fst (PraseGHC ''::add-mask::  '') =
     Inr \<lparr>Name = ''add-mask'', Data = ''  '',
          Opts = Some \<lparr>data = Map.empty, defs = []\<rparr>\<rparr> \<and>
   TrimLeftSpace ''  '' = [] \<and>
   streamReader_line True reader0 ''::add-mask::  '' 3 =
     (reader0, Some (newLine True 14 ''::add-mask::  '' 3))"
proof -
  let ?c = "\<lparr>Name = ''add-mask'', Data = ''  '', Opts = Some \<lparr>data = Map.empty, defs = []\<rparr>\<rparr>"
  have e: "enable reader0"
    by (simp add: reader0_def)
  have p: "fst (PraseGHC ''::add-mask::  '') = Inr ?c"
    by (simp add: parser_eval)
  have n: "Name ?c = ''add-mask''"
    by simp
  have t: "TrimLeftSpace (Data ?c) = []"
    by (simp add: parser_eval)
  have s: "snd (PraseGHC ''::add-mask::  '') = ''::add-mask::  ''"
    by (simp add: parser_eval)
  from blank_add_mask_sent_as_plain [OF e p n t, of 3] e p t s show ?thesis
    by (simp add: reader0_def mask_def)
qed




section \<open>Properties of the stream splitter\<close>







text \<open>
  A remark: the split function does not wait for the byte after a CR
  that ends the data it is given, so a CRLF cut between two reads ends two lines.
\<close>

lemma splitFunc_CR_at_end_of_chunk:
  "splitFunc [CHR ''a'', CHR 0x0D] False = (2, Some ''a'') \<and>
   splitFunc [CHR 0x0A, CHR ''b''] False = (1, Some [])"
  by (simp add: splitFunc_def splitFunc_loop.simps)

section \<open>Properties of the batching sender\<close>

lemma flush_empty: "buf s = [] \<Longrightarrow> flush s ok = (s, None)"
  by (simp add: flush_def)

lemma flush_nonempty:
  "buf s \<noteq> [] \<Longrightarrow> flush s ok = (s\<lparr>buf := [], bufSize := 0, timer := None\<rparr>, Some (buf s, ok))"
  by (simp add: flush_def)

lemma sender_step_inv: "sender_inv sh \<Longrightarrow> sender_inv (sender_step sh op)"
proof (cases sh)
  case (Pair s held)
  assume inv: "sender_inv sh"
  show ?thesis
  proof (cases op)
    case (Write l ok)
    then show ?thesis
      using inv Pair
      by (cases l) (auto simp: sender_inv_def write_l_def flush_def Let_def)
  next
    case (Flush ok)
    then show ?thesis
      using inv Pair by (auto simp: sender_inv_def flush_def)
  qed
qed

lemma sender_run_inv: "sender_inv (sender_run opts ops)"
proof -
  have "sender_inv (foldl sender_step sh ops)" if "sender_inv sh" for sh
    using that by (induction ops arbitrary: sh) (simp_all add: sender_step_inv)
  then show ?thesis
    by (simp add: sender_run_def sender_inv_def newSender_def)
qed

lemma exact_total:
  assumes "\<forall>l\<in>set held. 0 \<le> size_l l" and "sum_list (map size_l held) < 2 ^ 64"
  shows "uint (of_int (sum_list (map size_l held)) :: 64 word) = sum_list (map size_l held)"
proof -
  have "0 \<le> sum_list (map size_l held)"
    using assms(1) by (induction held) auto
  then show ?thesis
    using assms(2) by (simp add: uint_word_of_int take_bit_int_eq_self)
qed


text \<open>
  C3. For any run of the sender from \<open>newSender\<close>, the buffer is the wire form of the
  lines held and \<open>bufSize\<close> is the sum of their sizes as a \<open>uint64\<close>, the sum itself
  when the sizes are not negative and it is below \<open>2^64\<close>; after a flush, also one
  inside \<open>write\<close>, the buffer is empty and the total is 0; a flush of an empty buffer does
  nothing, and a flush of a non-empty buffer submits it and clears buffer, total and timer
  whether the query fails or not.
\<close>

theorem sender_total_is_sum:
  "(case sender_run opts ops of
      (s, held) \<Rightarrow>
        buf s = map toCborLine held \<and>
        bufSize s = of_int (sum_list (map size_l held)) \<and>
        ((\<forall>l\<in>set held. 0 \<le> size_l l) \<and> sum_list (map size_l held) < 2 ^ 64 \<longrightarrow>
           uint (bufSize s) = sum_list (map size_l held)) \<and>
        buf (fst (flush s ok)) = [] \<and> bufSize (fst (flush s ok)) = 0 \<and>
        (snd (write_l s l ok) \<noteq> None \<longrightarrow>
           buf (fst (write_l s l ok)) = [] \<and> bufSize (fst (write_l s l ok)) = 0)) \<and>
   (buf s1 = [] \<longrightarrow> flush s1 ok = (s1, None)) \<and>
   (buf s2 \<noteq> [] \<longrightarrow>
      flush s2 ok = (s2\<lparr>buf := [], bufSize := 0, timer := None\<rparr>, Some (buf s2, ok)))"
proof -
  obtain s held where r: "sender_run opts ops = (s, held)"
    by (cases "sender_run opts ops")
  from sender_run_inv [of opts ops] r
  have b: "buf s = map toCborLine held" and t: "bufSize s = of_int (sum_list (map size_l held))"
    by (simp_all add: sender_inv_def)
  have e: "uint (bufSize s) = sum_list (map size_l held)"
    if "(\<forall>l\<in>set held. 0 \<le> size_l l) \<and> sum_list (map size_l held) < 2 ^ 64"
    using that exact_total [of held] by (simp add: t)
  have f: "buf (fst (flush s ok)) = [] \<and> bufSize (fst (flush s ok)) = 0"
    using b t by (cases held) (simp_all add: flush_def)
  have w: "buf (fst (write_l s l ok)) = [] \<and> bufSize (fst (write_l s l ok)) = 0"
    if "snd (write_l s l ok) \<noteq> None"
    using that by (cases l) (auto simp: write_l_def flush_def Let_def split: if_splits)
  show ?thesis
    using b t e f w by (simp add: r flush_empty flush_nonempty)
qed

theorem sender_total_is_sum_witness:
  "sender_run \<lparr>cd = 2000000000, mbs = 1048576\<rparr>
     [Write (Some (newLine True 5 ''hello'' 1)) True, Write None True,
      Write (Some (newLine False 7 ''goodbye'' 2)) False] =
     (\<lparr>buf = [toCborLine (newLine True 5 ''hello'' 1), toCborLine (newLine False 7 ''goodbye'' 2)],
       bufSize = 12, timer = Some 2000000000, opt = \<lparr>cd = 2000000000, mbs = 1048576\<rparr>\<rparr>,
      [newLine True 5 ''hello'' 1, newLine False 7 ''goodbye'' 2]) \<and>
   0 \<le> size_l (newLine True 5 ''hello'' 1) \<and> 0 \<le> size_l (newLine False 7 ''goodbye'' 2) \<and>
   sum_list (map size_l [newLine True 5 ''hello'' 1, newLine False 7 ''goodbye'' 2]) < 2 ^ 64 \<and>
   uint (12 :: 64 word) = 12 \<and>
   snd (write_l \<lparr>buf = [toCborLine (newLine True 5 ''hello'' 1), toCborLine (newLine False 7 ''goodbye'' 2)],
       bufSize = 12, timer = Some 2000000000, opt = \<lparr>cd = 2000000000, mbs = 1048576\<rparr>\<rparr>
     (Some (newLine True 1048570 ''x'' 3)) False) \<noteq> None \<and>
   buf (newSender \<lparr>cd = 2000000000, mbs = 1048576\<rparr>) = [] \<and>
   flush (newSender \<lparr>cd = 2000000000, mbs = 1048576\<rparr>) False =
     (newSender \<lparr>cd = 2000000000, mbs = 1048576\<rparr>, None) \<and>
   flush \<lparr>buf = [toCborLine (newLine True 5 ''hello'' 1)], bufSize = 5, timer = Some 7,
          opt = \<lparr>cd = 2000000000, mbs = 1048576\<rparr>\<rparr> False =
     (\<lparr>buf = [], bufSize = 0, timer = None, opt = \<lparr>cd = 2000000000, mbs = 1048576\<rparr>\<rparr>,
      Some ([toCborLine (newLine True 5 ''hello'' 1)], False))"
proof -
  let ?o = "\<lparr>cd = 2000000000, mbs = 1048576\<rparr>"
  let ?l1 = "newLine True 5 ''hello'' 1" and ?l2 = "newLine False 7 ''goodbye'' 2"
  let ?ops = "[Write (Some ?l1) True, Write None True, Write (Some ?l2) False]"
  let ?s = "\<lparr>buf = [toCborLine ?l1, toCborLine ?l2], bufSize = 12,
             timer = Some 2000000000, opt = ?o\<rparr>"
  let ?s2 = "\<lparr>buf = [toCborLine ?l1], bufSize = 5, timer = Some 7, opt = ?o\<rparr>"
  have r: "sender_run ?o ?ops = (?s, [?l1, ?l2])"
    by (simp add: sender_run_def newSender_def write_l_def flush_def newLine_def Let_def)
  have h1: "(\<forall>l\<in>set [?l1, ?l2]. 0 \<le> size_l l) \<and> sum_list (map size_l [?l1, ?l2]) < 2 ^ 64"
    by (simp add: newLine_def)
  have h2: "snd (write_l ?s (Some (newLine True 1048570 ''x'' 3)) False) \<noteq> None"
    by (simp add: write_l_def flush_def newLine_def Let_def)
  have h3: "buf (newSender ?o) = []"
    by (simp add: newSender_def)
  have h4: "buf ?s2 \<noteq> []"
    by simp
  from sender_total_is_sum
    [where opts = ?o and ops = ?ops and ok = False
       and l = "Some (newLine True 1048570 ''x'' 3)" and ?s1.0 = "newSender ?o" and ?s2.0 = ?s2]
    r h1 h2 h3 h4
  show ?thesis
    by simp
qed

section \<open>Properties of the RPC client\<close>

lemma getChan_delChan: "getChan (delChan s i) i = None"
  by (simp add: getChan_def delChan_def split: option.splits)

lemma CloseChan_delChan: "CloseChan (delChan s i) = CloseChan s"
  by (simp add: delChan_def)

lemma snd_rpc_wait: "snd (rpc_wait s i meth werr w) = delChan s i"
  by (simp add: rpc_wait_def Let_def)

text \<open>
  C4 as stated: the error of a call that times out names the method and the
  request id. The first call on a fresh connection has the id 1, and its error is
  \<open>'query' rpc timed out after 5 secconds\<close>, in which no \<open>1\<close> occurs.
\<close>

theorem timeout_error_counterexample:
  "fst (rpc_register connected) = Return (Inr (1, 0)) \<and>
   fst (rpc connected ''query'' None Timeout) =
     Return (None, Some ([CHR 0x27] @ ''query'' @ [CHR 0x27] @ '' rpc timed out after 5 secconds'')) \<and>
   Itoa 1 = ''1'' \<and>
   CHR ''1'' \<notin> set ([CHR 0x27] @ ''query'' @ [CHR 0x27] @ '' rpc timed out after 5 secconds'')"
  by (simp add: rpc_def rpc_register_def connected_def serial_next_def setChan_def rpc_wait_def
      delChan_def Let_def Itoa_def Itoa_nat.simps)

text \<open>
  C4, amended. When the timeout fires, the call returns the error
  \<open>'<method>' rpc timed out after 5 secconds\<close>, which names the method and not the id.
  However the call returns once its slot is registered, the slot is unregistered: the
  table has no entry for the id, and a response with that id that the reader task handles
  afterwards is dropped, the task going on with no error recorded.
\<close>

theorem timeout_names_method_and_unregisters:
  "rpc_wait s i meth None Timeout =
     ((None, Some ([CHR 0x27] @ meth @ [CHR 0x27] @ '' rpc timed out after 5 secconds'')),
      delChan s i) \<and>
   getChan (snd (rpc_wait s i meth werr w)) i = None \<and>
   (CloseChan s \<noteq> ClosedChan \<longrightarrow> Id_r resp = i \<longrightarrow>
      listen_step (snd (rpc_wait s i meth werr w)) (Response resp) =
        (Dropped, snd (rpc_wait s i meth werr w))) \<and>
   (rpc_register s0 = (Return (Inr (i, ch)), s) \<longrightarrow>
      rpc s0 meth None Timeout =
        (Return (None, Some ([CHR 0x27] @ meth @ [CHR 0x27] @ '' rpc timed out after 5 secconds'')),
         delChan s i))"
  by (simp add: snd_rpc_wait getChan_delChan CloseChan_delChan listen_step_def rpc_def)
     (simp add: rpc_wait_def)

theorem timeout_names_method_and_unregisters_witness:
  "rpc_register connected =
     (Return (Inr (1, 0)), connected\<lparr>id_r := Some 1, respChans := Some [1 \<mapsto> 0], made := 1\<rparr>) \<and>
   CloseChan (connected\<lparr>id_r := Some 1, respChans := Some [1 \<mapsto> 0], made := 1\<rparr>) \<noteq> ClosedChan \<and>
   Id_r \<lparr>Id_r = 1, Error_r = None, Result_r = Some ''x''\<rparr> = 1 \<and>
   rpc connected ''use'' None Timeout =
     (Return (None, Some ([CHR 0x27] @ ''use'' @ [CHR 0x27] @ '' rpc timed out after 5 secconds'')),
      connected\<lparr>id_r := Some 1, made := 1\<rparr>) \<and>
   listen_step (connected\<lparr>id_r := Some 1, made := 1\<rparr>)
       (Response \<lparr>Id_r = 1, Error_r = None, Result_r = Some ''x''\<rparr>) =
     (Dropped, connected\<lparr>id_r := Some 1, made := 1\<rparr>)"
proof -
  let ?s = "connected\<lparr>id_r := Some 1, respChans := Some [1 \<mapsto> 0], made := 1\<rparr>"
  let ?resp = "\<lparr>Id_r = 1, Error_r = None, Result_r = Some ''x''\<rparr>"
  have r: "rpc_register connected = (Return (Inr (1, 0)), ?s)"
    by (simp add: rpc_register_def connected_def serial_next_def setChan_def Let_def)
  have c: "CloseChan ?s \<noteq> ClosedChan"
    by (simp add: connected_def)
  have i: "Id_r ?resp = 1"
    by simp
  have d: "delChan ?s 1 = connected\<lparr>id_r := Some 1, made := 1\<rparr>"
    by (simp add: delChan_def connected_def)
  note t = timeout_names_method_and_unregisters
    [where s = ?s and i = 1 and meth = "''use''" and werr = None and w = Timeout
       and resp = ?resp and ?s0.0 = connected and ch = 0, unfolded snd_rpc_wait d]
  from t r c i show ?thesis
    by simp
qed

end
